theory Spec2Isabelle
  imports Complex_Main "HOL-Library.Sublist" "HOL-Library.Char_ord" "HOL-Library.List_Lexorder"
begin

section \<open>Category rules and the categorizer (steamlit.py, lines 9-30)\<close>

text \<open>
  The rule set is the dictionary \<open>categories\<close>: Python dictionaries keep the order in
  which their keys were inserted, and \<open>categorize\<close> iterates \<open>categories.items()\<close> in
  that order, so the model is an association list of (category, keywords) pairs.
\<close>

type_synonym rules = "(string \<times> string list) list"

text \<open>The fallback of \<open>load_categories\<close>, returned when categories.json is not found.\<close>

definition default_categories :: rules where
  "default_categories =
     [(''groceries'', [''walmart'', ''supermarket'', ''grocery'', ''aldi'']),
      (''rent'', [''rent'', ''apartment'']),
      (''utilities'', [''electric'', ''water'', ''gas'', ''internet'']),
      (''entertainment'', [''netflix'', ''cinema'', ''movie'', ''concert'']),
      (''other'', [])]"

text \<open>
  \<open>load_categories\<close>: the argument is the content of categories.json, \<open>None\<close> when
  opening the file raises FileNotFoundError.
\<close>

definition load_categories :: "rules option \<Rightarrow> rules" where
  "load_categories file = (case file of Some loaded \<Rightarrow> loaded | None \<Rightarrow> default_categories)"

text \<open>
  \<open>str.lower()\<close>. A \<open>string\<close> is a list of 8-bit characters: the letters A-Z are
  mapped to a-z and every other character is kept (Python also maps the upper-case
  letters beyond ASCII, which a byte string does not represent).
\<close>

definition lower_char :: "char \<Rightarrow> char" where
  "lower_char c =
     (let n = (of_char c :: nat) in if 65 \<le> n \<and> n \<le> 90 then char_of (n + 32) else c)"

definition lower :: "string \<Rightarrow> string" where
  "lower s = map lower_char s"

text \<open>
  \<open>keyword in description\<close> on Python strings: \<open>keyword\<close> occurs as a contiguous
  substring of \<open>description\<close>; the empty keyword occurs in every string.
\<close>

fun str_in :: "string \<Rightarrow> string \<Rightarrow> bool" where
  "str_in keyword [] = (keyword = [])"
| "str_in keyword (c # cs) = (prefix keyword (c # cs) \<or> str_in keyword cs)"

text \<open>The \<open>for\<close> loop of \<open>categorize\<close> over \<open>categories.items()\<close>, with its final return.\<close>

fun categorize_loop :: "rules \<Rightarrow> string \<Rightarrow> string" where
  "categorize_loop [] description = ''other''"
| "categorize_loop ((category, keywords) # rest) description =
     (if list_ex (\<lambda>keyword. str_in keyword description) keywords then category
      else categorize_loop rest description)"

definition categorize :: "rules \<Rightarrow> string \<Rightarrow> string" where
  "categorize categories description = categorize_loop categories (lower description)"

section \<open>The uploaded table (steamlit.py, line 40)\<close>

text \<open>
  \<open>df = pd.read_csv(uploaded_file)\<close> is a table with named columns. Of a row, the model
  keeps the cells of the three columns the program reads, in the upload format the
  program is written for: a Description cell is a text or empty (NaN); an Amount cell is
  a number, a text or empty; a Date cell is a date, as the timestamp pandas reads from
  it, or empty (NaT). Outside this format the pass ends in an exception of pandas and
  shows nothing: for a Description column of numbers only (\<open>lower\<close> is no attribute of a
  number) and for a Date column that \<open>pd.to_datetime\<close> cannot read. A cell of a column
  that \<open>columns\<close> does not list is not part of the table; the program never reads it.

  Amounts are exact rationals; pandas holds them as 64-bit floats, whose rounding the
  model leaves out. A timestamp is a count of microseconds since the epoch.
\<close>

datatype amount_cell = NA | Num rat | Str string

datatype date_cell = NaT | Stamp int

record raw_row =
  Description :: "string option"
  Amount :: amount_cell
  Date :: date_cell

record raw_table =
  columns :: "string list"
  rows :: "raw_row list"

text \<open>
  What the program takes from pandas and from the clock: how \<open>pd.to_numeric\<close> reads a
  number from a text (\<open>None\<close>: the text is no number), the monthly period of a timestamp
  (\<open>.dt.to_period('M')\<close>), and the clock: \<open>today e i\<close> is what \<open>datetime.today()\<close>
  returns when line 54 calls it for row \<open>i\<close>.
\<close>

record env =
  to_numeric_str :: "string \<Rightarrow> rat option"
  to_period_M :: "int \<Rightarrow> int"
  today :: "nat \<Rightarrow> int"

text \<open>
  The errors of a pass: the message of line 44 for a missing column, and the exception
  of \<open>description.lower()\<close> on a cell that is no text.
\<close>

datatype error = MissingColumnError | AttributeError

text \<open>
  A row of the table once the Amount column is numeric (line 48) and the columns
  Category, Date and Month are set (lines 50-56). \<open>None\<close> is NaN in the Description and
  Amount columns, NaT in the Date and Month columns.
\<close>

record transaction =
  description :: "string option"
  amount :: "rat option"
  category :: string
  date :: "int option"
  month :: "int option"

section \<open>Validation and cleaning (steamlit.py, lines 43-56)\<close>

text \<open>Line 47: \<open>df.dropna(subset=['Description', 'Amount'], inplace=True)\<close>.\<close>

definition dropna_Description_Amount :: "raw_row list \<Rightarrow> raw_row list" where
  "dropna_Description_Amount rs = filter (\<lambda>r. Description r \<noteq> None \<and> Amount r \<noteq> NA) rs"

text \<open>
  Line 48: \<open>pd.to_numeric(df['Amount'], errors='coerce')\<close>, on one cell; the result
  \<open>None\<close> is NaN. The new column of floats is kept beside the row it belongs to.
\<close>

definition to_numeric :: "env \<Rightarrow> amount_cell \<Rightarrow> rat option" where
  "to_numeric e c = (case c of NA \<Rightarrow> None | Num x \<Rightarrow> Some x | Str s \<Rightarrow> to_numeric_str e s)"

definition coerce_Amount :: "env \<Rightarrow> raw_row list \<Rightarrow> (raw_row \<times> rat option) list" where
  "coerce_Amount e rs = map (\<lambda>r. (r, to_numeric e (Amount r))) rs"

text \<open>Line 49: \<open>df.dropna(subset=['Amount'], inplace=True)\<close>.\<close>

definition dropna_Amount :: "(raw_row \<times> rat option) list \<Rightarrow> (raw_row \<times> rat option) list" where
  "dropna_Amount rs = filter (\<lambda>(r, a). a \<noteq> None) rs"

text \<open>
  \<open>Series.apply\<close> works through a column cell by cell; the first cell on which the
  function raises ends the pass.
\<close>

fun series_apply :: "('a \<Rightarrow> error + 'b) \<Rightarrow> 'a list \<Rightarrow> error + 'b list" where
  "series_apply f [] = Inr []"
| "series_apply f (x # xs) =
     (case f x of
        Inl err \<Rightarrow> Inl err
      | Inr y \<Rightarrow> (case series_apply f xs of Inl err \<Rightarrow> Inl err | Inr ys \<Rightarrow> Inr (y # ys)))"

text \<open>
  Line 50: \<open>categorize\<close> on one cell of the Description column. On NaN (a float)
  \<open>description.lower()\<close> raises AttributeError.
\<close>

fun categorize_cell :: "rules \<Rightarrow> string option \<Rightarrow> error + string" where
  "categorize_cell categories None = Inl AttributeError"
| "categorize_cell categories (Some text) = Inr (categorize categories text)"

text \<open>\<open>timedelta(days=i)\<close>, in microseconds.\<close>

definition timedelta_days :: "nat \<Rightarrow> int" where
  "timedelta_days i = int i * 86400000000"

text \<open>
  Lines 53-54: the Date column. When the table has none, row \<open>i\<close> of the rows that are
  left, counted from 0, gets \<open>datetime.today() - timedelta(days=i)\<close>.
\<close>

definition date_column :: "env \<Rightarrow> string list \<Rightarrow> (raw_row \<times> rat option) list \<Rightarrow> date_cell list" where
  "date_column e cols rs =
     (if ''Date'' \<notin> set cols
      then map (\<lambda>i. Stamp (today e i - timedelta_days i)) [0..<length rs]
      else map (\<lambda>(r, a). Date r) rs)"

text \<open>Line 55: \<open>pd.to_datetime\<close> on one cell.\<close>

definition to_datetime :: "date_cell \<Rightarrow> int option" where
  "to_datetime c = (case c of NaT \<Rightarrow> None | Stamp d \<Rightarrow> Some d)"

text \<open>The table with its new columns, row by row (line 56 sets Month from Date).\<close>

definition assemble ::
  "env \<Rightarrow> (raw_row \<times> rat option) list \<Rightarrow> string list \<Rightarrow> int option list \<Rightarrow> transaction list" where
  "assemble e rs cats dates =
     map (\<lambda>((r, a), c, d).
            \<lparr>description = Description r, amount = a, category = c, date = d,
             month = map_option (to_period_M e) d\<rparr>)
         (zip rs (zip cats dates))"

text \<open>Lines 43-56.\<close>

definition validate_and_clean :: "env \<Rightarrow> rules \<Rightarrow> raw_table \<Rightarrow> error + transaction list" where
  "validate_and_clean e categories df =
     (if ''Description'' \<notin> set (columns df) \<or> ''Amount'' \<notin> set (columns df)
      then Inl MissingColumnError
      else
        let rs = dropna_Amount (coerce_Amount e (dropna_Description_Amount (rows df))) in
        case series_apply (categorize_cell categories) (map (\<lambda>(r, a). Description r) rs) of
          Inl err \<Rightarrow> Inl err
        | Inr cats \<Rightarrow> Inr (assemble e rs cats (map to_datetime (date_column e (columns df) rs))))"

text \<open>
  The cleaned table read as an input table again: its Description, Amount and Date
  columns hold the texts, floats and timestamps of the rows.
\<close>

definition as_raw :: "transaction \<Rightarrow> raw_row" where
  "as_raw t =
     \<lparr>Description = description t,
      Amount = (case amount t of None \<Rightarrow> NA | Some x \<Rightarrow> Num x),
      Date = (case date t of None \<Rightarrow> NaT | Some d \<Rightarrow> Stamp d)\<rparr>"

definition as_table :: "string list \<Rightarrow> transaction list \<Rightarrow> raw_table" where
  "as_table cols ts = \<lparr>columns = cols, rows = map as_raw ts\<rparr>"

section \<open>Aggregation (steamlit.py, lines 63, 103, 121-130, 144)\<close>

text \<open>\<open>Series.sum()\<close> of the Amount column: NaN is skipped.\<close>

definition amount_sum :: "transaction list \<Rightarrow> rat" where
  "amount_sum ts = sum_list (map (\<lambda>t. case amount t of None \<Rightarrow> 0 | Some x \<Rightarrow> x) ts)"

text \<open>
  \<open>df.groupby(key)['Amount'].sum().reset_index()\<close>: one row for each key that occurs,
  in ascending order of the keys; rows whose key is missing (NaN, NaT) are in no group.
\<close>

definition groupby_sum :: "(transaction \<Rightarrow> 'k::linorder option) \<Rightarrow> transaction list \<Rightarrow> ('k \<times> rat) list" where
  "groupby_sum key ts =
     map (\<lambda>k. (k, amount_sum (filter (\<lambda>t. key t = Some k) ts)))
         (sort (remdups (List.map_filter key ts)))"

definition summary :: "transaction list \<Rightarrow> (string \<times> rat) list" where
  "summary ts = groupby_sum (\<lambda>t. Some (category t)) ts"

definition monthly_spending :: "transaction list \<Rightarrow> (int \<times> rat) list" where
  "monthly_spending ts = groupby_sum month ts"

text \<open>Line 144: \<open>total_spent = summary['Amount'].sum()\<close>.\<close>

definition total_spent :: "transaction list \<Rightarrow> rat" where
  "total_spent ts = sum_list (map snd (summary ts))"

text \<open>The four \<open>st.number_input\<close> values of lines 115-118.\<close>

record budgets =
  budget_groceries :: int
  budget_rent :: int
  budget_utilities :: int
  budget_entertainment :: int

text \<open>
  \<open>df[df['Category'] == c]['Amount'].sum()\<close>, and the rows of \<open>budget_df\<close>
  (Category, Budget, Actual).
\<close>

definition actual :: "transaction list \<Rightarrow> string \<Rightarrow> rat" where
  "actual ts c = amount_sum (filter (\<lambda>t. category t = c) ts)"

definition budget_data :: "budgets \<Rightarrow> transaction list \<Rightarrow> (string \<times> int \<times> rat) list" where
  "budget_data b ts =
     [(''groceries'', budget_groceries b, actual ts ''groceries''),
      (''rent'', budget_rent b, actual ts ''rent''),
      (''utilities'', budget_utilities b, actual ts ''utilities''),
      (''entertainment'', budget_entertainment b, actual ts ''entertainment'')]"

section \<open>Saving tips (steamlit.py, lines 68-76)\<close>

definition tips :: "(string \<times> string) list" where
  "tips =
     [(''groceries'', ''Consider buying in bulk, using coupons, and shopping at discount stores.''),
      (''rent'', ''Try to negotiate a lower rent or consider moving to a more affordable place.''),
      (''utilities'', ''Turn off unused electronics, and use energy-efficient appliances.''),
      (''entertainment'', ''Cut down on subscriptions and find free or low-cost entertainment options.''),
      (''other'', ''Analyze discretionary expenses and reduce non-essential spending.'')]"

text \<open>\<open>tips.get(category, "No tips available.")\<close>.\<close>

definition saving_tips :: "string \<Rightarrow> string" where
  "saving_tips c = (case map_of tips c of Some advice \<Rightarrow> advice | None \<Rightarrow> ''No tips available.'')"

section \<open>The handler of an upload (steamlit.py, lines 38-152)\<close>

text \<open>
  What a pass shows: the categorized table, the summary, a tip for each row of the
  summary, the monthly sums, the budget table and the total. When the column check
  fails, only the message of line 44 is shown.
\<close>

record page =
  shown_table :: "transaction list"
  shown_summary :: "(string \<times> rat) list"
  shown_tips :: "(string \<times> rat \<times> string) list"
  shown_monthly :: "(int \<times> rat) list"
  shown_budget :: "(string \<times> int \<times> rat) list"
  shown_total :: rat

definition uploaded_file_handler :: "env \<Rightarrow> rules \<Rightarrow> budgets \<Rightarrow> raw_table \<Rightarrow> error + page" where
  "uploaded_file_handler e categories b df =
     (case validate_and_clean e categories df of
        Inl err \<Rightarrow> Inl err
      | Inr ts \<Rightarrow>
          Inr \<lparr>shown_table = ts,
               shown_summary = summary ts,
               shown_tips = map (\<lambda>(c, a). (c, a, saving_tips c)) (summary ts),
               shown_monthly = monthly_spending ts,
               shown_budget = budget_data b ts,
               shown_total = total_spent ts\<rparr>)"

section \<open>Notions used in the statements\<close>

text \<open>
  A row that cleaning drops: its description or its amount is absent, or its amount
  fails the numeric coercion.
\<close>

definition dropped :: "env \<Rightarrow> raw_row \<Rightarrow> bool" where
  "dropped e r \<longleftrightarrow> Description r = None \<or> Amount r = NA \<or> to_numeric e (Amount r) = None"

definition kept_rows :: "env \<Rightarrow> raw_table \<Rightarrow> raw_row list" where
  "kept_rows e df = filter (\<lambda>r. \<not> dropped e r) (rows df)"

section \<open>Data for the examples\<close>

text \<open>
  The month of a timestamp in the proleptic Gregorian calendar, numbered as pandas
  numbers monthly periods: 0 is January 1970.
\<close>

definition month_ordinal :: "int \<Rightarrow> int" where
  "month_ordinal us =
     (let days = us div 86400000000;
          z = days + 719468;
          era = z div 146097;
          doe = z - era * 146097;
          yoe = (doe - doe div 1460 + doe div 36524 - doe div 146096) div 365;
          doy = doe - (365 * yoe + yoe div 4 - yoe div 100);
          mp = (5 * doy + 2) div 153;
          m = (if mp < 10 then mp + 3 else mp - 9);
          y = yoe + era * 400 + (if m \<le> 2 then 1 else 0)
      in (y - 1970) * 12 + (m - 1))"

text \<open>
  An environment for the examples: it reads the two numerals of the first upload and no
  other text as a number; the pass runs on 3 November 2025 at 9:30, and every reading of
  the clock is a microsecond after the one before.
\<close>

definition example_env :: env where
  "example_env =
     \<lparr>to_numeric_str = map_of [(''54.23'', 5423 / 100), (''15.99'', 1599 / 100)],
      to_period_M = month_ordinal,
      today = (\<lambda>i. 1762162200000000 + int i)\<rparr>"

text \<open>
  The uploads of the examples, as \<open>read_csv\<close> returns them: an Amount column holds
  texts when one of its cells is no number, and numbers otherwise; 1704412800000000 is
  5 January 2024. Then two cleaned tables.
\<close>

definition upload_scenario :: raw_table where
  "upload_scenario =
     \<lparr>columns = [''Description'', ''Amount''],
      rows = [\<lparr>Description = Some ''Walmart trip'', Amount = Str ''54.23'', Date = NaT\<rparr>,
              \<lparr>Description = Some ''Netflix'', Amount = Str ''15.99'', Date = NaT\<rparr>,
              \<lparr>Description = Some ''Cash'', Amount = Str ''abc'', Date = NaT\<rparr>]\<rparr>"



definition upload_dated :: raw_table where
  "upload_dated =
     \<lparr>columns = [''Description'', ''Amount'', ''Date''],
      rows = [\<lparr>Description = Some ''Walmart trip'', Amount = Num (5423 / 100),
                Date = Stamp 1704412800000000\<rparr>,
              \<lparr>Description = Some ''Netflix'', Amount = Num (1599 / 100), Date = NaT\<rparr>]\<rparr>"

definition upload_no_amount :: raw_table where
  "upload_no_amount =
     \<lparr>columns = [''Description'', ''Date''],
      rows = [\<lparr>Description = Some ''Walmart trip'', Amount = NA, Date = Stamp 1704412800000000\<rparr>]\<rparr>"


definition cleaned_scenario :: "transaction list" where
  "cleaned_scenario =
     [\<lparr>description = Some ''Walmart trip'', amount = Some (5423 / 100), category = ''groceries'',
       date = Some 1762162200000000, month = Some 670\<rparr>,
      \<lparr>description = Some ''Netflix'', amount = Some (1599 / 100), category = ''entertainment'',
       date = Some 1762075800000001, month = Some 670\<rparr>]"

definition cleaned_dated :: "transaction list" where
  "cleaned_dated =
     [\<lparr>description = Some ''Walmart trip'', amount = Some (5423 / 100), category = ''groceries'',
       date = Some 1704412800000000, month = Some 648\<rparr>,
      \<lparr>description = Some ''Netflix'', amount = Some (1599 / 100), category = ''entertainment'',
       date = None, month = None\<rparr>]"

section \<open>Lemmas\<close>

subsection \<open>Substrings and the loop of the categorizer\<close>

lemma str_in_iff: "str_in k s \<longleftrightarrow> (\<exists>ps ss. s = ps @ k @ ss)"
proof (induction s)
  case Nil
  then show ?case by auto
next
  case (Cons c cs)
  have "(\<exists>ps ss. c # cs = ps @ k @ ss) \<longleftrightarrow> prefix k (c # cs) \<or> (\<exists>ps ss. cs = ps @ k @ ss)"
    (is "?L \<longleftrightarrow> ?R")
  proof
    assume ?L
    then obtain ps ss where eq: "c # cs = ps @ k @ ss" by blast
    show ?R
    proof (cases ps)
      case Nil
      with eq show ?thesis by (simp add: prefix_def)
    next
      case (Cons p ps')
      with eq have "cs = ps' @ k @ ss" by simp
      then show ?thesis by blast
    qed
  next
    assume ?R
    then show ?L
    proof
      assume "prefix k (c # cs)"
      then obtain ss where "c # cs = k @ ss" by (auto simp: prefix_def)
      then have "c # cs = [] @ k @ ss" by simp
      then show ?L by blast
    next
      assume "\<exists>ps ss. cs = ps @ k @ ss"
      then obtain ps ss where "cs = ps @ k @ ss" by blast
      then have "c # cs = (c # ps) @ k @ ss" by simp
      then show ?L by blast
    qed
  qed
  with Cons show ?case by simp
qed

lemma categorize_loop_range:
  "categorize_loop rs d \<in> set (map fst rs) \<union> {''other''}"
  by (induction rs d rule: categorize_loop.induct) auto

lemma categorize_loop_no_match:
  "\<forall>(c, ks) \<in> set rs. \<forall>k \<in> set ks. \<not> str_in k d \<Longrightarrow> categorize_loop rs d = ''other''"
  by (induction rs d rule: categorize_loop.induct) (auto simp: list_ex_iff)

lemma categorize_loop_skip:
  "\<forall>(c, ks) \<in> set pre. \<forall>k \<in> set ks. \<not> str_in k d \<Longrightarrow>
   categorize_loop (pre @ rs) d = categorize_loop rs d"
  by (induction pre d rule: categorize_loop.induct) (auto simp: list_ex_iff)

lemma categorize_loop_prefix_range:
  "\<exists>k \<in> set ks. str_in k d \<Longrightarrow>
   categorize_loop (pre @ (c, ks) # post) d \<in> set (map fst pre) \<union> {c}"
  by (induction pre d rule: categorize_loop.induct) (auto simp: list_ex_iff)

lemma categorize_loop_empty_keywords:
  "categorize_loop (pre @ (c, []) # post) d = categorize_loop (pre @ post) d"
  by (induction pre d rule: categorize_loop.induct) auto

lemma lower_Netflix_gas: "lower ''Netflix and GAS bill'' = ''netflix and gas bill''"
  by code_simp

lemma lower_Cash: "lower ''Cash'' = ''cash''"
  by code_simp

subsection \<open>The cleaning steps\<close>

lemma series_apply_map:
  "\<forall>x \<in> set xs. f (k x) = Inr (g x) \<Longrightarrow> series_apply f (map k xs) = Inr (map g xs)"
  by (induction xs) auto

lemma cleaned_rows:
  "dropna_Amount (coerce_Amount e (dropna_Description_Amount (rows df))) =
   map (\<lambda>r. (r, to_numeric e (Amount r))) (kept_rows e df)"
  by (induction "rows df" arbitrary: df)
     (auto simp: dropna_Amount_def coerce_Amount_def dropna_Description_Amount_def kept_rows_def
        dropped_def filter_map comp_def intro!: filter_cong)

lemma kept_row_present:
  "r \<in> set (kept_rows e df) \<Longrightarrow>
   (\<exists>s. Description r = Some s) \<and> (\<exists>x. to_numeric e (Amount r) = Some x)"
  by (auto simp: kept_rows_def dropped_def)

text \<open>The category of a kept row.\<close>

lemma categorize_kept:
  "series_apply (categorize_cell cats) (map Description (kept_rows e df)) =
   Inr (map (\<lambda>r. case Description r of Some s \<Rightarrow> categorize cats s | None \<Rightarrow> []) (kept_rows e df))"
  by (rule series_apply_map) (auto dest: kept_row_present)

lemma assemble_map:
  "assemble e (map f xs) (map g xs) (map h xs) =
   map (\<lambda>x. \<lparr>description = Description (fst (f x)), amount = snd (f x), category = g x,
               date = h x, month = map_option (to_period_M e) (h x)\<rparr>) xs"
  by (induction xs) (auto simp: assemble_def case_prod_unfold)

lemma assemble_columns:
  assumes "length cs = length rs" and "length ds = length rs"
  shows "map description (assemble e rs cs ds) = map (\<lambda>(r, a). Description r) rs \<and>
         map amount (assemble e rs cs ds) = map snd rs \<and>
         map category (assemble e rs cs ds) = cs \<and>
         map date (assemble e rs cs ds) = ds \<and>
         map month (assemble e rs cs ds) = map (map_option (to_period_M e)) ds \<and>
         length (assemble e rs cs ds) = length rs"
proof -
  from assms have "length rs = length cs" and "length cs = length ds" by simp_all
  then show ?thesis
    by (induction rs cs ds rule: list_induct3) (auto simp: assemble_def)
qed

lemma length_date_column: "length (date_column e cols rs) = length rs"
  by (simp add: date_column_def)

lemma validate_and_clean_present:
  assumes "''Description'' \<in> set (columns df)" and "''Amount'' \<in> set (columns df)"
  shows "validate_and_clean e cats df =
     Inr (assemble e (map (\<lambda>r. (r, to_numeric e (Amount r))) (kept_rows e df))
            (map (\<lambda>r. case Description r of Some s \<Rightarrow> categorize cats s | None \<Rightarrow> []) (kept_rows e df))
            (map to_datetime
               (date_column e (columns df) (map (\<lambda>r. (r, to_numeric e (Amount r))) (kept_rows e df)))))"
  using assms
  by (simp add: validate_and_clean_def cleaned_rows comp_def case_prod_unfold categorize_kept Let_def)

lemma validate_and_clean_Inr:
  "validate_and_clean e cats df = Inr ts \<Longrightarrow>
   ''Description'' \<in> set (columns df) \<and> ''Amount'' \<in> set (columns df)"
  by (auto simp: validate_and_clean_def split: if_splits)

text \<open>The columns of the cleaned table, read off the rows that are kept.\<close>

lemma validate_and_clean_columns:
  assumes "validate_and_clean e cats df = Inr ts"
  shows "map description ts = map Description (kept_rows e df) \<and>
         map amount ts = map (\<lambda>r. to_numeric e (Amount r)) (kept_rows e df) \<and>
         map category ts =
           map (\<lambda>r. case Description r of Some s \<Rightarrow> categorize cats s | None \<Rightarrow> []) (kept_rows e df) \<and>
         map date ts =
           map to_datetime (date_column e (columns df)
              (map (\<lambda>r. (r, to_numeric e (Amount r))) (kept_rows e df))) \<and>
         map month ts = map (map_option (to_period_M e)) (map date ts) \<and>
         length ts = length (kept_rows e df)"
proof -
  let ?rs = "map (\<lambda>r. (r, to_numeric e (Amount r))) (kept_rows e df)"
  let ?cs = "map (\<lambda>r. case Description r of Some s \<Rightarrow> categorize cats s | None \<Rightarrow> []) (kept_rows e df)"
  let ?ds = "map to_datetime (date_column e (columns df) ?rs)"
  from validate_and_clean_Inr [OF assms] have "validate_and_clean e cats df = Inr (assemble e ?rs ?cs ?ds)"
    by (simp add: validate_and_clean_present)
  with assms have ts: "ts = assemble e ?rs ?cs ?ds" by simp
  have "length ?cs = length ?rs" and "length ?ds = length ?rs"
    by (simp_all add: length_date_column)
  from assemble_columns [OF this, of e] show ?thesis
    unfolding ts by (simp add: comp_def)
qed

lemma validate_and_clean_rows:
  assumes "validate_and_clean e cats df = Inr ts" and "t \<in> set ts"
  shows "(\<exists>s. description t = Some s \<and> category t = categorize cats s) \<and>
         (\<exists>x. amount t = Some x) \<and>
         month t = map_option (to_period_M e) (date t)"
proof -
  note cols = validate_and_clean_columns [OF assms(1)]
  from assms(2) obtain n where n: "n < length ts" "t = ts ! n" by (auto simp: in_set_conv_nth)
  then have nk: "n < length (kept_rows e df)" using cols by simp
  let ?r = "kept_rows e df ! n"
  have "?r \<in> set (kept_rows e df)" using nk by simp
  from kept_row_present [OF this] obtain s x where
    r: "Description ?r = Some s" "to_numeric e (Amount ?r) = Some x" by blast
  from cols have "map description ts ! n = map Description (kept_rows e df) ! n" by simp
  then have d: "description t = Some s" using n nk r by simp
  from cols have "map amount ts ! n = map (\<lambda>r. to_numeric e (Amount r)) (kept_rows e df) ! n"
    by simp
  then have a: "amount t = Some x" using n nk r by simp
  from cols have "map category ts ! n =
        map (\<lambda>r. case Description r of Some s \<Rightarrow> categorize cats s | None \<Rightarrow> []) (kept_rows e df) ! n"
    by simp
  then have c: "category t = categorize cats s" using n nk r by simp
  from cols have "map month ts = map (map_option (to_period_M e)) (map date ts)" by blast
  then have m: "month t = map_option (to_period_M e) (date t)"
    using assms(2) by (auto simp: comp_def)
  from d a c m show ?thesis by simp
qed

subsection \<open>Aggregation\<close>


lemma amount_sum_Nil: "amount_sum [] = 0"
  by (simp add: amount_sum_def)




lemma actual_none: "\<forall>t \<in> set ts. category t \<noteq> c \<Longrightarrow> actual ts c = 0"
proof -
  assume "\<forall>t \<in> set ts. category t \<noteq> c"
  then have "filter (\<lambda>t. category t = c) ts = []" by (simp add: filter_empty_conv)
  then show ?thesis by (simp add: actual_def amount_sum_Nil)
qed


section \<open>The claims\<close>

text \<open>
  Claim C1. When the lower-cased description contains a keyword of category \<open>C\<close>, the
  result of \<open>categorize\<close> is \<open>C\<close> or a category declared before it, never one declared
  after it; and when the description contains no keyword of any category declared before
  \<open>C\<close>, the result is \<open>C\<close>. So of two categories with a matching keyword the one declared
  earlier wins. This holds for every rule set and every description. The built-in rule
  set declares groceries, rent, utilities, entertainment and other, in this order.
\<close>

theorem categorize_first_match:
  assumes "\<exists>k \<in> set kws. str_in k (lower d)"
  shows "categorize (pre @ (C, kws) # post) d \<in> set (map fst pre) \<union> {C} \<and>
         ((\<forall>(c, ks) \<in> set pre. \<forall>k \<in> set ks. \<not> str_in k (lower d)) \<longrightarrow>
          categorize (pre @ (C, kws) # post) d = C) \<and>
         map fst (load_categories None) =
           [''groceries'', ''rent'', ''utilities'', ''entertainment'', ''other'']"
proof (intro conjI impI)
  show "map fst (load_categories None) =
      [''groceries'', ''rent'', ''utilities'', ''entertainment'', ''other'']"
    by (simp add: load_categories_def default_categories_def)
next
  show "categorize (pre @ (C, kws) # post) d \<in> set (map fst pre) \<union> {C}"
    unfolding categorize_def using assms by (rule categorize_loop_prefix_range)
next
  assume "\<forall>(c, ks) \<in> set pre. \<forall>k \<in> set ks. \<not> str_in k (lower d)"
  then have "categorize_loop (pre @ (C, kws) # post) (lower d) =
             categorize_loop ((C, kws) # post) (lower d)"
    by (rule categorize_loop_skip)
  also have "\<dots> = C" using assms by (simp add: list_ex_iff)
  finally show "categorize (pre @ (C, kws) # post) d = C" by (simp add: categorize_def)
qed

text \<open>The theorem at a concrete input.\<close>

theorem categorize_first_match_witness:
  "(\<exists>k \<in> set [''electric'', ''water'', ''gas'', ''internet''].
      str_in k (lower ''Netflix and GAS bill'')) \<and>
   (\<exists>k \<in> set [''netflix'', ''cinema'', ''movie'', ''concert''].
      str_in k (lower ''Netflix and GAS bill'')) \<and>
   map fst (load_categories None) =
     [''groceries'', ''rent'', ''utilities'', ''entertainment'', ''other''] \<and>
   categorize (load_categories None) ''Netflix and GAS bill'' = ''utilities''"
proof -
  let ?d = "''Netflix and GAS bill''"
  let ?pre = "[(''groceries'', [''walmart'', ''supermarket'', ''grocery'', ''aldi'']),
               (''rent'', [''rent'', ''apartment''])]"
  let ?post = "[(''entertainment'', [''netflix'', ''cinema'', ''movie'', ''concert'']),
                (''other'', [])]"
  let ?kws = "[''electric'', ''water'', ''gas'', ''internet'']"
  have h1: "\<exists>k \<in> set ?kws. str_in k (lower ?d)"
    unfolding lower_Netflix_gas by simp
  have h2: "\<forall>(c, ks) \<in> set ?pre. \<forall>k \<in> set ks. \<not> str_in k (lower ?d)"
    unfolding lower_Netflix_gas by simp
  have h3: "\<exists>k \<in> set [''netflix'', ''cinema'', ''movie'', ''concert'']. str_in k (lower ?d)"
    unfolding lower_Netflix_gas by simp
  have split: "load_categories None = ?pre @ (''utilities'', ?kws) # ?post"
    by (simp add: load_categories_def default_categories_def)
  note first = categorize_first_match [OF h1, of ?pre "''utilities''" ?post]
  from first h2 have "categorize (?pre @ (''utilities'', ?kws) # ?post) ?d = ''utilities''"
    by blast
  then have run: "categorize (load_categories None) ?d = ''utilities''" by (simp only: split)
  from first have names: "map fst (load_categories None) =
      [''groceries'', ''rent'', ''utilities'', ''entertainment'', ''other'']"
    by blast
  from h1 h3 names run show ?thesis by (intro conjI)
qed




text \<open>
  Claim C3. For every cleaned table and all budgets, the budget table has exactly four
  rows, for groceries, rent, utilities and entertainment in this order, each with its
  budget and with the sum of the amounts of its category, which is 0 when the category
  has no row; the category other is not in the budget table.
\<close>

theorem budget_data_fixed:
  "length (budget_data b ts) = 4 \<and>
   map fst (budget_data b ts) = [''groceries'', ''rent'', ''utilities'', ''entertainment''] \<and>
   map (\<lambda>(c, budget, act). budget) (budget_data b ts) =
     [budget_groceries b, budget_rent b, budget_utilities b, budget_entertainment b] \<and>
   (\<forall>(c, budget, act) \<in> set (budget_data b ts).
      act = actual ts c \<and> ((\<forall>t \<in> set ts. category t \<noteq> c) \<longrightarrow> act = 0)) \<and>
   ''other'' \<notin> fst ` set (budget_data b ts)"
  by (simp add: budget_data_def actual_none)

text \<open>The theorem at a concrete input.\<close>

theorem budget_data_fixed_witness:
  "budget_data \<lparr>budget_groceries = 200, budget_rent = 1000, budget_utilities = 150,
                 budget_entertainment = 100\<rparr>
     [\<lparr>description = Some ''Walmart trip'', amount = Some (5423 / 100), category = ''groceries'',
        date = None, month = None\<rparr>,
      \<lparr>description = Some ''Cash'', amount = Some 20, category = ''other'',
        date = None, month = None\<rparr>] =
   [(''groceries'', 200, 5423 / 100), (''rent'', 1000, 0), (''utilities'', 150, 0),
    (''entertainment'', 100, 0)]"
proof -
  let ?b = "\<lparr>budget_groceries = 200, budget_rent = 1000, budget_utilities = 150,
             budget_entertainment = 100\<rparr>"
  let ?ts = "[\<lparr>description = Some ''Walmart trip'', amount = Some (5423 / 100), category = ''groceries'',
        date = None, month = None\<rparr>,
      \<lparr>description = Some ''Cash'', amount = Some 20, category = ''other'',
        date = None, month = None\<rparr>]"
  have g: "actual ?ts ''groceries'' = 5423 / 100" by code_simp
  have "\<forall>t \<in> set ?ts. category t \<noteq> ''rent''" "\<forall>t \<in> set ?ts. category t \<noteq> ''utilities''"
    "\<forall>t \<in> set ?ts. category t \<noteq> ''entertainment''" by simp_all
  with budget_data_fixed [of ?b ?ts]
  have "actual ?ts ''rent'' = 0" "actual ?ts ''utilities'' = 0" "actual ?ts ''entertainment'' = 0"
    by (simp_all add: budget_data_def)
  with g show ?thesis by (simp add: budget_data_def)
qed

text \<open>
  Claim C4, amended. Each of the five default categories has a tip of its own, the five
  tips are different texts, and every other category name gets the text
  \<open>No tips available.\<close>
\<close>

theorem saving_tips_table:
  "saving_tips ''groceries'' = ''Consider buying in bulk, using coupons, and shopping at discount stores.'' \<and>
   saving_tips ''rent'' = ''Try to negotiate a lower rent or consider moving to a more affordable place.'' \<and>
   saving_tips ''utilities'' = ''Turn off unused electronics, and use energy-efficient appliances.'' \<and>
   saving_tips ''entertainment'' = ''Cut down on subscriptions and find free or low-cost entertainment options.'' \<and>
   saving_tips ''other'' = ''Analyze discretionary expenses and reduce non-essential spending.'' \<and>
   distinct (map saving_tips [''groceries'', ''rent'', ''utilities'', ''entertainment'', ''other'']) \<and>
   (c \<notin> {''groceries'', ''rent'', ''utilities'', ''entertainment'', ''other''} \<longrightarrow>
      saving_tips c = ''No tips available.'')"
  by (simp add: saving_tips_def tips_def)

text \<open>The theorem at a concrete input.\<close>

theorem saving_tips_table_witness:
  "saving_tips ''travel'' = ''No tips available.''"
  using saving_tips_table [of "''travel''"] by simp

text \<open>
  Claim C4 as stated fails: a category that is not in the table does not get the tip of
  \<open>other\<close>.
\<close>

theorem saving_tips_fallback_counterexample:
  "saving_tips ''travel'' \<noteq> saving_tips ''other''"
  by (simp add: saving_tips_def tips_def)

text \<open>
  Claim C5. For a table without a Description column or without an Amount column,
  validation ends with \<open>MissingColumnError\<close>, and so does the whole pass: there is no
  cleaned table and no page.
\<close>

theorem missing_column:
  assumes "''Description'' \<notin> set (columns df) \<or> ''Amount'' \<notin> set (columns df)"
  shows "validate_and_clean e cats df = Inl MissingColumnError \<and>
         uploaded_file_handler e cats b df = Inl MissingColumnError"
  using assms by (auto simp: validate_and_clean_def uploaded_file_handler_def)

text \<open>The theorem at a concrete input.\<close>

theorem missing_column_witness:
  "''Amount'' \<notin> set (columns upload_no_amount) \<and>
   validate_and_clean example_env default_categories upload_no_amount = Inl MissingColumnError \<and>
   uploaded_file_handler example_env default_categories
     \<lparr>budget_groceries = 200, budget_rent = 1000, budget_utilities = 150, budget_entertainment = 100\<rparr>
     upload_no_amount = Inl MissingColumnError"
proof -
  have "''Amount'' \<notin> set (columns upload_no_amount)" by (simp add: upload_no_amount_def)
  with missing_column [of upload_no_amount] show ?thesis by blast
qed






text \<open>
  Claim C8. When the lower-cased description contains no keyword of any category of the
  rule set, \<open>categorize\<close> returns \<open>other\<close>. A category with no keywords matches no
  description: taking its entry out of the rule set changes no result.
\<close>

theorem categorize_no_match:
  "((\<forall>(c, ks) \<in> set categories. \<forall>k \<in> set ks. \<not> str_in k (lower d)) \<longrightarrow>
      categorize categories d = ''other'') \<and>
   categorize (pre @ (c, []) # post) d = categorize (pre @ post) d"
  unfolding categorize_def
  using categorize_loop_no_match [of categories "lower d"]
    categorize_loop_empty_keywords [of pre c post "lower d"]
  by blast

text \<open>The theorem at a concrete input.\<close>

theorem categorize_no_match_witness:
  "categorize default_categories ''Cash'' = ''other'' \<and>
   categorize ([(''misc'', []), (''rent'', [''rent''])]) ''Rent for May'' =
     categorize [(''rent'', [''rent''])] ''Rent for May''"
proof -
  have "\<forall>(c, ks) \<in> set default_categories. \<forall>k \<in> set ks. \<not> str_in k (lower ''Cash'')"
    unfolding lower_Cash by (simp add: default_categories_def)
  with categorize_no_match [of default_categories "''Cash''" "[]" "''misc''" "[]"]
  have "categorize default_categories ''Cash'' = ''other''" by blast
  moreover from categorize_no_match [of "[]" "''Rent for May''" "[]" "''misc''" "[(''rent'', [''rent''])]"]
  have "categorize ([(''misc'', []), (''rent'', [''rent''])]) ''Rent for May'' =
     categorize [(''rent'', [''rent''])] ''Rent for May''" by simp
  ultimately show ?thesis by simp
qed

text \<open>
  Claim C9. A second pass over a cleaned table returns it unchanged, whatever the clock
  reads by then: the cleaned table of any upload, read as an input table with its
  Description, Amount and Date columns, is its own cleaned table.
\<close>

theorem validate_and_clean_idempotent:
  assumes "validate_and_clean e cats df = Inr ts"
    and "''Description'' \<in> set cols" and "''Amount'' \<in> set cols" and "''Date'' \<in> set cols"
  shows "validate_and_clean (e\<lparr>today := now\<rparr>) cats (as_table cols ts) = Inr ts"
proof -
  let ?e = "e\<lparr>today := now\<rparr>"
  note row = validate_and_clean_rows [OF assms(1)]
  have kept: "kept_rows ?e (as_table cols ts) = map as_raw ts"
    using row
    by (auto simp: kept_rows_def as_table_def dropped_def as_raw_def to_numeric_def filter_id_conv
          split: option.splits)
  have cols: "columns (as_table cols ts) = cols" by (simp add: as_table_def)
  have "validate_and_clean ?e cats (as_table cols ts) =
        Inr (assemble ?e (map (\<lambda>t. (as_raw t, to_numeric ?e (Amount (as_raw t)))) ts)
               (map (\<lambda>t. case Description (as_raw t) of Some s \<Rightarrow> categorize cats s | None \<Rightarrow> []) ts)
               (map (\<lambda>t. to_datetime (Date (as_raw t))) ts))"
    using assms(2-4)
    by (subst validate_and_clean_present) (simp_all add: kept cols date_column_def comp_def)
  also have "\<dots> = Inr ts"
  proof -
    have same: "\<lparr>description = Description (fst (as_raw t, to_numeric ?e (Amount (as_raw t)))),
                 amount = snd (as_raw t, to_numeric ?e (Amount (as_raw t))),
                 category = (case Description (as_raw t) of Some s \<Rightarrow> categorize cats s | None \<Rightarrow> []),
                 date = to_datetime (Date (as_raw t)),
                 month = map_option (to_period_M ?e) (to_datetime (Date (as_raw t)))\<rparr> = t"
      if "t \<in> set ts" for t
    proof -
      from row [OF that] obtain s y where "description t = Some s" "category t = categorize cats s"
        "amount t = Some y" "month t = map_option (to_period_M e) (date t)" by auto
      then show ?thesis
        by (cases t) (simp add: as_raw_def to_numeric_def to_datetime_def split: option.splits)
    qed
    show ?thesis unfolding assemble_map sum.inject by (rule map_idI) (rule same)
  qed
  finally show ?thesis .
qed

text \<open>The theorem at a concrete input.\<close>

theorem validate_and_clean_idempotent_witness:
  "validate_and_clean example_env default_categories upload_dated = Inr cleaned_dated \<and>
   validate_and_clean (example_env\<lparr>today := \<lambda>i. 1762248600000000\<rparr>) default_categories
     (as_table [''Description'', ''Amount'', ''Date'', ''Category'', ''Month''] cleaned_dated) =
     Inr cleaned_dated"
proof -
  have run: "validate_and_clean example_env default_categories upload_dated = Inr cleaned_dated"
    by code_simp
  from validate_and_clean_idempotent [OF run,
      of "[''Description'', ''Amount'', ''Date'', ''Category'', ''Month'']" "\<lambda>i. 1762248600000000"]
  have "validate_and_clean (example_env\<lparr>today := \<lambda>i. 1762248600000000\<rparr>) default_categories
     (as_table [''Description'', ''Amount'', ''Date'', ''Category'', ''Month''] cleaned_dated) =
     Inr cleaned_dated" by simp
  with run show ?thesis by simp
qed

text \<open>
  Claim C10. \<open>categorize\<close> returns for every rule set and every description: its loop is
  a recursion over the rule list and the substring test one over the description, and
  both are accepted as total functions. The result is a category name of the rule set or
  \<open>other\<close>; so the category of every row of a cleaned table is one of these.
\<close>

theorem categorize_range:
  "categorize categories d \<in> set (map fst categories) \<union> {''other''} \<and>
   (validate_and_clean e categories df = Inr ts \<longrightarrow>
      (\<forall>t \<in> set ts. category t \<in> set (map fst categories) \<union> {''other''}))"
proof -
  have range: "categorize categories d \<in> set (map fst categories) \<union> {''other''}" for d
    unfolding categorize_def by (rule categorize_loop_range)
  have "category t \<in> set (map fst categories) \<union> {''other''}"
    if "validate_and_clean e categories df = Inr ts" and "t \<in> set ts" for t
  proof -
    from validate_and_clean_rows [OF that] obtain s where "category t = categorize categories s"
      by blast
    with range [of s] show ?thesis by simp
  qed
  with range [of d] show ?thesis by blast
qed

text \<open>The theorem at a concrete input.\<close>

theorem categorize_range_witness:
  "validate_and_clean example_env default_categories upload_scenario = Inr cleaned_scenario \<and>
   set (map category cleaned_scenario) \<subseteq> set (map fst default_categories) \<union> {''other''} \<and>
   categorize default_categories ''Cash'' \<in> set (map fst default_categories) \<union> {''other''}"
proof -
  have run: "validate_and_clean example_env default_categories upload_scenario = Inr cleaned_scenario"
    by code_simp
  from categorize_range [of default_categories "''Cash''" example_env upload_scenario cleaned_scenario] run
  show ?thesis by auto
qed

end
